theory Spec2Isabelle
  imports Main
begin

section \<open>Data model of the GlusterFS state module\<close>

text \<open>
  The state functions of \<^verbatim>\<open>salt/states/glusterfs.py\<close> build a dictionary \<^verbatim>\<open>ret\<close> with the
  keys \<^verbatim>\<open>name\<close>, \<^verbatim>\<open>changes\<close>, \<^verbatim>\<open>comment\<close> and \<^verbatim>\<open>result\<close>. The values stored under
  \<^verbatim>\<open>changes\<close> are strings, lists of names, or \<^verbatim>\<open>None\<close> (the peer list of a pool without
  peers). A dictionary is kept as an association list; it is empty (falsy) exactly when the
  list is empty.
\<close>

datatype pyval = PNone | PStr string | PList "string list"

type_synonym pydict = "(string \<times> pyval) list"

text \<open>
  \<^verbatim>\<open>result\<close> is \<^verbatim>\<open>True\<close>, \<^verbatim>\<open>False\<close> or \<^verbatim>\<open>None\<close>: \<open>Some True\<close>, \<open>Some False\<close>, \<open>None\<close>.
  The field \<open>ret_change\<close> is the key \<^verbatim>\<open>change\<close> (singular), which \<^verbatim>\<open>started\<close> assigns at
  line 229; it is \<open>None\<close> while the dictionary has no such key.
\<close>

record ret =
  ret_name :: string
  ret_changes :: pydict
  ret_comment :: string
  ret_result :: "bool option"
  ret_change :: "pydict option"

text \<open>
  One entry of the dictionary returned by \<^verbatim>\<open>glusterfs.info\<close>. \<open>vol_status\<close> is the value
  of \<^verbatim>\<open>int(volinfo[name]['status'])\<close>, \<open>None\<close> when the conversion raises \<^verbatim>\<open>ValueError\<close>;
  \<open>vol_bricks\<close> lists \<^verbatim>\<open>brick['path']\<close> over \<^verbatim>\<open>volinfo[name]['bricks'].values()\<close>.
\<close>

record volume =
  vol_status :: "int option"
  vol_bricks :: "string list"

text \<open>Exceptions that leave a state function without a \<^verbatim>\<open>ret\<close> dictionary.\<close>

datatype exn = Gaierror | KeyError | ValueError

text \<open>
  Every call that leaves the module is recorded, oldest first. \<open>Peer\<close>, \<open>CreateVolume\<close>,
  \<open>StartVolume\<close> and \<open>AddVolumeBricks\<close> are the state-changing execution-module functions;
  the others only read.
\<close>

datatype call =
    GetHostByName string
  | NetworkIpAddrs
  | ListPeers
  | Peer string
  | ListVolumes
  | CreateVolume string "string list" "int option" "int option" bool string bool bool
  | Info
  | StartVolume string
  | AddVolumeBricks string "string list"

type_synonym trace = "call list"

fun is_action :: "call \<Rightarrow> bool" where
  "is_action (Peer _) = True"
| "is_action (CreateVolume _ _ _ _ _ _ _ _) = True"
| "is_action (StartVolume _) = True"
| "is_action (AddVolumeBricks _ _) = True"
| "is_action _ = False"

fun is_query :: "call \<Rightarrow> bool" where
  "is_query ListPeers = True"
| "is_query ListVolumes = True"
| "is_query Info = True"
| "is_query _ = False"

text \<open>
  The surroundings of the module: \<^verbatim>\<open>socket.gethostbyname\<close>, the functions reached through
  \<^verbatim>\<open>__salt__\<close>, and \<^verbatim>\<open>__opts__['test']\<close>. They are not part of the module, so they are
  parameters. Each answer may depend on the calls made so far, which lets an answer change
  after an action. \<open>gethostbyname\<close> answers \<open>None\<close> when the name does not resolve
  (\<^verbatim>\<open>socket.gaierror\<close>). \<^verbatim>\<open>stripe\<close> and \<^verbatim>\<open>replica\<close> are \<^verbatim>\<open>False\<close> (\<open>None\<close>) or a number.
\<close>

record salt =
  gethostbyname :: "trace \<Rightarrow> string \<Rightarrow> string option"
  network_ip_addrs :: "trace \<Rightarrow> string list"
  glusterfs_list_peers :: "trace \<Rightarrow> string list option"
  glusterfs_peer :: "trace \<Rightarrow> string \<Rightarrow> bool"
  glusterfs_list_volumes :: "trace \<Rightarrow> string list"
  glusterfs_create_volume ::
    "trace \<Rightarrow> string \<Rightarrow> string list \<Rightarrow> int option \<Rightarrow> int option \<Rightarrow> bool \<Rightarrow> string \<Rightarrow> bool \<Rightarrow> bool \<Rightarrow> bool"
  glusterfs_info :: "trace \<Rightarrow> (string \<times> volume) list"
  glusterfs_start_volume :: "trace \<Rightarrow> string \<Rightarrow> bool"
  glusterfs_add_volume_bricks :: "trace \<Rightarrow> string \<Rightarrow> string list \<Rightarrow> bool"
  opts_test :: bool

text \<open>A call returns its answer and the trace extended by the call.\<close>

definition do_gethostbyname :: "salt \<Rightarrow> trace \<Rightarrow> string \<Rightarrow> string option \<times> trace" where
  "do_gethostbyname s t name = (gethostbyname s t name, t @ [GetHostByName name])"

definition do_ip_addrs :: "salt \<Rightarrow> trace \<Rightarrow> string list \<times> trace" where
  "do_ip_addrs s t = (network_ip_addrs s t, t @ [NetworkIpAddrs])"

definition do_list_peers :: "salt \<Rightarrow> trace \<Rightarrow> string list option \<times> trace" where
  "do_list_peers s t = (glusterfs_list_peers s t, t @ [ListPeers])"

definition do_peer :: "salt \<Rightarrow> trace \<Rightarrow> string \<Rightarrow> bool \<times> trace" where
  "do_peer s t name = (glusterfs_peer s t name, t @ [Peer name])"

definition do_list_volumes :: "salt \<Rightarrow> trace \<Rightarrow> string list \<times> trace" where
  "do_list_volumes s t = (glusterfs_list_volumes s t, t @ [ListVolumes])"

definition do_create_volume ::
  "salt \<Rightarrow> trace \<Rightarrow> string \<Rightarrow> string list \<Rightarrow> int option \<Rightarrow> int option \<Rightarrow> bool \<Rightarrow> string \<Rightarrow> bool \<Rightarrow> bool
    \<Rightarrow> bool \<times> trace" where
  "do_create_volume s t name bricks stripe replica device_vg transport start force =
     (glusterfs_create_volume s t name bricks stripe replica device_vg transport start force,
      t @ [CreateVolume name bricks stripe replica device_vg transport start force])"

definition do_info :: "salt \<Rightarrow> trace \<Rightarrow> (string \<times> volume) list \<times> trace" where
  "do_info s t = (glusterfs_info s t, t @ [Info])"

definition do_start_volume :: "salt \<Rightarrow> trace \<Rightarrow> string \<Rightarrow> bool \<times> trace" where
  "do_start_volume s t name = (glusterfs_start_volume s t name, t @ [StartVolume name])"

definition do_add_volume_bricks :: "salt \<Rightarrow> trace \<Rightarrow> string \<Rightarrow> string list \<Rightarrow> bool \<times> trace" where
  "do_add_volume_bricks s t name bricks =
     (glusterfs_add_volume_bricks s t name bricks, t @ [AddVolumeBricks name bricks])"

text \<open>
  Modelled from the spec: the characters a resource name may hold, \<^verbatim>\<open>[A-Za-z0-9._-]\<close>; the
  module passes the same set to \<^verbatim>\<open>check_name\<close> as \<^verbatim>\<open>'a-zA-Z0-9._-'\<close>.
\<close>

definition safe_char :: "char \<Rightarrow> bool" where
  "safe_char c \<longleftrightarrow>
     List.member ''abcdefghijklmnopqrstuvwxyzABCDEFGHIJKLMNOPQRSTUVWXYZ0123456789._-'' c"

text \<open>
  Modelled from the spec: \<^verbatim>\<open>salt.utils.cloud.check_name\<close> is not among the sources. The
  module tests its value and reports invalid characters when it is true, and the
  specification calls a name malformed when it has a character outside the set: the value
  is true exactly then.
\<close>

definition check_name :: "string \<Rightarrow> bool" where
  "check_name name = list_ex (\<lambda>c. \<not> safe_char c) name"

text \<open>The dictionary every state function starts from (lines 47, 122, 205, 262).\<close>

definition init_ret :: "string \<Rightarrow> ret" where
  "init_ret name =
     \<lparr>ret_name = name, ret_changes = [], ret_comment = [], ret_result = Some False,
      ret_change = None\<rparr>"

text \<open>The value of a peer list when it is stored under \<^verbatim>\<open>changes\<close>.\<close>

fun peers_val :: "string list option \<Rightarrow> pyval" where
  "peers_val None = PNone"
| "peers_val (Some ps) = PList ps"

text \<open>\<^verbatim>\<open>peers and name in peers\<close>: a missing or empty peer list is falsy.\<close>

fun in_peers :: "string \<Rightarrow> string list option \<Rightarrow> bool" where
  "in_peers name None = False"
| "in_peers name (Some ps) = (ps \<noteq> [] \<and> List.member ps name)"


section \<open>The state functions\<close>

subsection \<open>\<^verbatim>\<open>peered\<close> (lines 26 to 88)\<close>

definition peered :: "salt \<Rightarrow> string \<Rightarrow> (exn + ret) \<times> trace" where
  "peered s name =
    (let ret = init_ret name;
         (resolved, t) = do_gethostbyname s [] name
     in case resolved of
          None \<Rightarrow> (Inl Gaierror, t)
        | Some addr \<Rightarrow>
            let (addrs, t) = do_ip_addrs s t in
            if List.member addrs addr then
              (Inr (ret\<lparr>ret_result := Some True,
                        ret_comment := ''Peering with localhost is not needed''\<rparr>), t)
            else
              let (peers, t) = do_list_peers s t in
              if in_peers name peers then
                (Inr (ret\<lparr>ret_result := Some True,
                          ret_comment := ''Host '' @ name @ '' already peered''\<rparr>), t)
              else if check_name name then
                (Inr (ret\<lparr>ret_comment := ''Invalid characters in peer name.'',
                          ret_result := Some False\<rparr>), t)
              else if opts_test s then
                (Inr (ret\<lparr>ret_comment := ''Peer '' @ name @ '' will be added.'',
                          ret_result := None\<rparr>), t)
              else
                let (peered, t) = do_peer s t name in
                if \<not> peered then
                  (Inr (ret\<lparr>ret_comment :=
                     ''Failed to peer with '' @ name @ '', please check logs for errors''\<rparr>), t)
                else
                  let (newpeers, t) = do_list_peers s t in
                  if in_peers name newpeers then
                    (Inr (ret\<lparr>ret_result := Some True,
                              ret_comment := ''Host '' @ name @ '' successfully peered'',
                              ret_changes :=
                                [(''new'', peers_val newpeers), (''old'', peers_val peers)]\<rparr>), t)
                  else
                    (Inr (ret\<lparr>ret_comment := ''Host '' @ name @
                       '' was successfully peered but did not appear in the list of peers''\<rparr>),
                     t))"

subsection \<open>\<^verbatim>\<open>volume_present\<close> (lines 91 to 178)\<close>

text \<open>Lines 157 to 178: the start phase and the final assignment of \<^verbatim>\<open>result\<close>.\<close>

definition volume_present_start ::
  "salt \<Rightarrow> string \<Rightarrow> bool \<Rightarrow> ret \<Rightarrow> trace \<Rightarrow> (exn + ret) \<times> trace" where
  "volume_present_start s name start ret t =
    (if start then
       if opts_test s then
         (Inr (ret\<lparr>ret_comment := ret_comment ret @ '' and will be started'',
                   ret_result := None\<rparr>), t)
       else
         let (volinfo, t) = do_info s t in
         case map_of volinfo name of
           None \<Rightarrow> (Inl KeyError, t)
         | Some vol \<Rightarrow>
             (case vol_status vol of
                None \<Rightarrow> (Inl ValueError, t)
              | Some st \<Rightarrow>
                  if st = 1 then
                    (Inr (ret\<lparr>ret_comment := ret_comment ret @ '' and is started'',
                              ret_result := Some True\<rparr>), t)
                  else
                    let (vol_started, t) = do_start_volume s t name in
                    if vol_started then
                      let ret = ret\<lparr>ret_result := Some True,
                                    ret_comment := ret_comment ret @ '' and is now started''\<rparr>;
                          ret = (if ret_changes ret = [] then
                                   ret\<lparr>ret_changes :=
                                     [(''new'', PStr ''started''), (''old'', PStr ''stopped'')]\<rparr>
                                 else ret)
                      in (Inr (ret\<lparr>ret_result := Some True\<rparr>), t)
                    else
                      (Inr (ret\<lparr>ret_comment := ret_comment ret @
                         '' but failed to start. Check logs for further information''\<rparr>), t))
     else (Inr (ret\<lparr>ret_result := Some True\<rparr>), t))"

definition volume_present ::
  "salt \<Rightarrow> string \<Rightarrow> string list \<Rightarrow> int option \<Rightarrow> int option \<Rightarrow> bool \<Rightarrow> string \<Rightarrow> bool \<Rightarrow> bool
    \<Rightarrow> (exn + ret) \<times> trace" where
  "volume_present s name bricks stripe replica device_vg transport start force =
    (let ret = init_ret name in
     if check_name name then
       (Inr (ret\<lparr>ret_comment := ''Invalid characters in volume name.''\<rparr>), [])
     else
       let (volumes, t) = do_list_volumes s [] in
       if \<not> List.member volumes name then
         if opts_test s then
           let comment = ''Volume '' @ name @ '' will be created'';
               comment = (if start then comment @ '' and started'' else comment)
           in (Inr (ret\<lparr>ret_comment := comment, ret_result := None\<rparr>), t)
         else
           let (vol_created, t) =
                 do_create_volume s t name bricks stripe replica device_vg transport start force
           in
           if \<not> vol_created then
             (Inr (ret\<lparr>ret_comment := ''Creation of volume '' @ name @
                '' failed. Check logs for further information''\<rparr>), t)
           else
             let old_volumes = volumes;
                 (volumes, t) = do_list_volumes s t;
                 ret = (if List.member volumes name then
                          ret\<lparr>ret_changes := [(''new'', PList volumes), (''old'', PList old_volumes)],
                              ret_comment := ''Volume '' @ name @ '' is created''\<rparr>
                        else ret)
             in volume_present_start s name start ret t
       else
         volume_present_start s name start
           (ret\<lparr>ret_comment := ''Volume '' @ name @ '' already exists''\<rparr>) t)"

subsection \<open>\<^verbatim>\<open>created\<close> (lines 181 to 190)\<close>

text \<open>
  Modelled from the spec: \<^verbatim>\<open>salt.utils.warn_until\<close> is not among the sources; the
  specification calls it the emission of a deprecation warning. The warnings a call emits are
  returned beside its outcome.
\<close>

definition warn_until :: "string \<Rightarrow> string \<Rightarrow> string list" where
  "warn_until version message = [message]"

definition created ::
  "salt \<Rightarrow> string \<Rightarrow> string list \<Rightarrow> int option \<Rightarrow> int option \<Rightarrow> bool \<Rightarrow> string \<Rightarrow> bool \<Rightarrow> bool
    \<Rightarrow> string list \<times> (exn + ret) \<times> trace" where
  "created s name bricks stripe replica device_vg transport start force =
    (let warnings = warn_until ''Nitrogen''
           (''The glusterfs.creaged state is deprecated in favor of more descriptive'' @
            '' glusterfs.volume_present.'')
     in (warnings,
         volume_present s name bricks stripe replica device_vg transport start force))"

subsection \<open>\<^verbatim>\<open>started\<close> (lines 193 to 234)\<close>

definition started :: "salt \<Rightarrow> string \<Rightarrow> (exn + ret) \<times> trace" where
  "started s name =
    (let ret = init_ret name;
         (volinfo, t) = do_info s []
     in case map_of volinfo name of
          None \<Rightarrow>
            (Inr (ret\<lparr>ret_result := Some False,
                      ret_comment := ''Volume '' @ name @ '' does not exist''\<rparr>), t)
        | Some vol \<Rightarrow>
            (case vol_status vol of
               None \<Rightarrow> (Inl ValueError, t)
             | Some st \<Rightarrow>
                 if st = 1 then
                   (Inr (ret\<lparr>ret_comment := ''Volume '' @ name @ '' is already started'',
                             ret_result := Some True\<rparr>), t)
                 else if opts_test s then
                   (Inr (ret\<lparr>ret_comment := ''Volume '' @ name @ '' will be started'',
                             ret_result := None\<rparr>), t)
                 else
                   let (vol_started, t) = do_start_volume s t name in
                   if vol_started then
                     (Inr (ret\<lparr>ret_result := Some True,
                               ret_comment := ''Volume '' @ name @ '' is started'',
                               ret_change :=
                                 Some [(''new'', PStr ''started''), (''old'', PStr ''stopped'')]\<rparr>),
                      t)
                   else
                     (Inr (ret\<lparr>ret_result := Some False,
                               ret_comment := ''Failed to start volume''\<rparr>), t)))"

subsection \<open>\<^verbatim>\<open>add_volume_bricks\<close> (lines 237 to 291)\<close>

text \<open>\<^verbatim>\<open>not (set(bricks) - set(current_bricks))\<close>: no requested brick is missing.\<close>

definition none_missing :: "string list \<Rightarrow> string list \<Rightarrow> bool" where
  "none_missing bricks current_bricks =
     (filter (\<lambda>b. \<not> List.member current_bricks b) bricks = [])"

definition add_volume_bricks :: "salt \<Rightarrow> string \<Rightarrow> string list \<Rightarrow> (exn + ret) \<times> trace" where
  "add_volume_bricks s name bricks =
    (let ret = init_ret name;
         (volinfo, t) = do_info s []
     in case map_of volinfo name of
          None \<Rightarrow>
            (Inr (ret\<lparr>ret_comment := ''Volume '' @ name @
               '' does not exist, cannot add bricks into it''\<rparr>), t)
        | Some vol \<Rightarrow>
            (case vol_status vol of
               None \<Rightarrow> (Inl ValueError, t)
             | Some st \<Rightarrow>
                 if st \<noteq> 1 then
                   (Inr (ret\<lparr>ret_comment := ''Volume '' @ name @
                      '' is not started, cannot add bricks into it''\<rparr>), t)
                 else
                   let current_bricks = vol_bricks vol in
                   if none_missing bricks current_bricks then
                     (Inr (ret\<lparr>ret_result := Some True,
                               ret_comment := ''Bricks already added in volume '' @ name\<rparr>), t)
                   else
                     let (bricks_added, t) = do_add_volume_bricks s t name bricks in
                     if bricks_added then
                       let ret = ret\<lparr>ret_result := Some True,
                                     ret_comment :=
                                       ''Bricks successfully added to volume '' @ name\<rparr>;
                           (newinfo, t) = do_info s t
                       in case map_of newinfo name of
                            None \<Rightarrow> (Inl KeyError, t)
                          | Some newvol \<Rightarrow>
                              (Inr (ret\<lparr>ret_changes :=
                                 [(''new'', PList (vol_bricks newvol)),
                                  (''old'', PList current_bricks)]\<rparr>), t)
                     else
                       (Inr (ret\<lparr>ret_comment := ''Adding bricks to volume '' @ name @
                          '' failed''\<rparr>), t)))"


section \<open>The outcome of a call as the specification names it\<close>

text \<open>
  The specification reads the three values of \<^verbatim>\<open>result\<close> as four outcomes: \<^verbatim>\<open>None\<close> is
  \<open>WouldChange\<close>, \<^verbatim>\<open>False\<close> is \<open>Failed\<close>, and \<^verbatim>\<open>True\<close> is \<open>Converged\<close> when the call took an
  action ("an action was taken and verified") and \<open>Unchanged\<close> when it took none ("already
  satisfied"). The outcome is read from \<^verbatim>\<open>result\<close> and the trace, never from \<^verbatim>\<open>changes\<close>.
\<close>

datatype status = Converged | WouldChange | Unchanged | Failed

definition acted :: "trace \<Rightarrow> bool" where
  "acted t = list_ex is_action t"

definition status_of :: "ret \<Rightarrow> trace \<Rightarrow> status" where
  "status_of r t =
     (case ret_result r of
        None \<Rightarrow> WouldChange
      | Some False \<Rightarrow> Failed
      | Some True \<Rightarrow> if acted t then Converged else Unchanged)"

text \<open>The outcome of a whole call; a call that raised has none.\<close>

definition outcome_status :: "(exn + ret) \<times> trace \<Rightarrow> status option" where
  "outcome_status out =
     (case fst out of Inl e \<Rightarrow> None | Inr r \<Rightarrow> Some (status_of r (snd out)))"

text \<open>
  A trace ends in a re-query when at least one call follows its last action and every call
  after that action is a query of the peer list, the volume list or the volume info.
\<close>

definition requeried :: "trace \<Rightarrow> bool" where
  "requeried t =
     (acted t \<and> takeWhile (\<lambda>c. \<not> is_action c) (rev t) \<noteq> [] \<and>
      list_all is_query (takeWhile (\<lambda>c. \<not> is_action c) (rev t)))"





section \<open>Sample surroundings\<close>

text \<open>
  An empty pool on a host whose names resolve to a foreign address: no peers, no volumes,
  every action reports success and changes nothing.
\<close>

definition quiet :: salt where
  "quiet =
     \<lparr>gethostbyname = (\<lambda>t n. Some ''192.0.2.7''),
      network_ip_addrs = (\<lambda>t. [''192.0.2.1'']),
      glusterfs_list_peers = (\<lambda>t. None),
      glusterfs_peer = (\<lambda>t n. True),
      glusterfs_list_volumes = (\<lambda>t. []),
      glusterfs_create_volume = (\<lambda>t n b st r d tr sa f. True),
      glusterfs_info = (\<lambda>t. []),
      glusterfs_start_volume = (\<lambda>t n. True),
      glusterfs_add_volume_bricks = (\<lambda>t n b. True),
      opts_test = False\<rparr>"

text \<open>
  A pool in which the first action makes the peer \<^verbatim>\<open>two\<close> and the volume \<^verbatim>\<open>v1\<close> appear;
  \<^verbatim>\<open>v1\<close> is stopped and refuses to start.
\<close>

definition cluster :: salt where
  "cluster =
     quiet\<lparr>glusterfs_list_peers := (\<lambda>t. if acted t then Some [''two''] else None),
           glusterfs_list_volumes := (\<lambda>t. if acted t then [''v1''] else []),
           glusterfs_info :=
             (\<lambda>t. [(''v1'', \<lparr>vol_status = Some 0, vol_bricks = [''h1:/b1'']\<rparr>)]),
           glusterfs_start_volume := (\<lambda>t n. False)\<rparr>"

text \<open>The volume \<^verbatim>\<open>v1\<close> exists and is stopped; starting it succeeds.\<close>

definition stopped_volume :: salt where
  "stopped_volume =
     quiet\<lparr>glusterfs_list_volumes := (\<lambda>t. [''v1'']),
           glusterfs_info :=
             (\<lambda>t. [(''v1'', \<lparr>vol_status = Some 0, vol_bricks = [''h1:/b1'']\<rparr>)])\<rparr>"

text \<open>
  The volume \<^verbatim>\<open>v1\<close> exists and is started; its brick list stays what it is, whatever an
  action reports.
\<close>

definition started_volume :: salt where
  "started_volume =
     quiet\<lparr>glusterfs_list_volumes := (\<lambda>t. [''v1'']),
           glusterfs_info :=
             (\<lambda>t. [(''v1'', \<lparr>vol_status = Some 1, vol_bricks = [''h1:/b1'']\<rparr>)])\<rparr>"

text \<open>The started volume \<^verbatim>\<open>v1\<close> gains the brick \<^verbatim>\<open>h2:/b2\<close> with the first action.\<close>

definition growing_volume :: salt where
  "growing_volume =
     quiet\<lparr>glusterfs_list_volumes := (\<lambda>t. [''v1'']),
           glusterfs_info :=
             (\<lambda>t. [(''v1'', \<lparr>vol_status = Some 1,
                            vol_bricks = (if acted t then [''h1:/b1'', ''h2:/b2'']
                                          else [''h1:/b1''])\<rparr>)])\<rparr>"


text \<open>
  A pool with the stopped volume \<^verbatim>\<open>v1\<close>, which starts on request, and the started volume
  \<^verbatim>\<open>v2\<close>, which gains the brick \<^verbatim>\<open>h2:/b2\<close> with the first action; the peer \<^verbatim>\<open>two\<close>
  appears with the first action.
\<close>

definition pool :: salt where
  "pool =
     quiet\<lparr>glusterfs_list_peers := (\<lambda>t. if acted t then Some [''two''] else None),
           glusterfs_list_volumes := (\<lambda>t. [''v1'', ''v2'']),
           glusterfs_info :=
             (\<lambda>t. [(''v1'', \<lparr>vol_status = Some 0, vol_bricks = [''h1:/b1'']\<rparr>),
                   (''v2'', \<lparr>vol_status = Some 1,
                            vol_bricks = (if acted t then [''h1:/b1'', ''h2:/b2'']
                                          else [''h1:/b1''])\<rparr>)])\<rparr>"


section \<open>Properties\<close>


lemmas salt_calls =
  do_gethostbyname_def do_ip_addrs_def do_list_peers_def do_peer_def do_list_volumes_def
  do_create_volume_def do_info_def do_start_volume_def do_add_volume_bricks_def

lemmas unfold_all =
  peered_def volume_present_def volume_present_start_def started_def add_volume_bricks_def
  init_ret_def salt_calls status_of_def outcome_status_def acted_def requeried_def Let_def

lemma safe_v1 [simp]: "\<not> check_name ''v1''" "\<not> check_name ''v2''" "\<not> check_name ''two''"
  by (simp_all add: check_name_def safe_char_def)

lemma unsafe_bad [simp]: "check_name ''bad name!''"
  by (simp add: check_name_def safe_char_def)

subsection \<open>Changes and outcome\<close>

lemma peered_changes:
  "peered s host = (Inr r, t) \<Longrightarrow> (ret_changes r \<noteq> [] \<longleftrightarrow> status_of r t = Converged)"
  by (auto simp: peered_def init_ret_def salt_calls status_of_def acted_def Let_def
           split: option.splits if_splits)

lemma add_volume_bricks_changes:
  "add_volume_bricks s name bricks = (Inr r, t) \<Longrightarrow>
     (ret_changes r \<noteq> [] \<longleftrightarrow> status_of r t = Converged)"
  by (auto simp: add_volume_bricks_def init_ret_def salt_calls status_of_def acted_def Let_def
           split: option.splits if_splits)

lemma started_changes: "started s name = (Inr r, t) \<Longrightarrow> ret_changes r = []"
  by (auto simp: started_def init_ret_def salt_calls Let_def split: option.splits if_splits)

lemma volume_present_changes:
  "volume_present s name bricks stripe replica device_vg transport start force = (Inr r, t) \<Longrightarrow>
   ret_changes r \<noteq> [] \<Longrightarrow>
   status_of r t = Converged \<or>
     (status_of r t = Failed \<and> start \<and>
      t = [ListVolumes, CreateVolume name bricks stripe replica device_vg transport start force,
           ListVolumes, Info, StartVolume name] \<and>
      \<not> glusterfs_start_volume s (butlast t) name)"
  by (auto simp: volume_present_def volume_present_start_def init_ret_def Let_def salt_calls
        status_of_def acted_def split: if_splits option.splits)

text \<open>
  C1 (as amended). For \<^verbatim>\<open>peered\<close> and \<^verbatim>\<open>add_volume_bricks\<close>, \<^verbatim>\<open>changes\<close> is non-empty exactly
  when the outcome is \<open>Converged\<close>. For \<^verbatim>\<open>started\<close>, an outcome other than \<open>Converged\<close>
  carries empty \<^verbatim>\<open>changes\<close>. For \<^verbatim>\<open>volume_present\<close>, non-empty \<^verbatim>\<open>changes\<close> come with the
  outcome \<open>Converged\<close>, or with \<open>Failed\<close> when the volume was created, listed by the
  re-query, and the requested start action then reported failure.
\<close>

theorem changes_imply_action:
  "(peered s host = (Inr rp, tp) \<longrightarrow>
      (ret_changes rp \<noteq> [] \<longleftrightarrow> status_of rp tp = Converged)) \<and>
   (add_volume_bricks s name bricks = (Inr rb, tb) \<longrightarrow>
      (ret_changes rb \<noteq> [] \<longleftrightarrow> status_of rb tb = Converged)) \<and>
   (started s name = (Inr rs, ts) \<longrightarrow> status_of rs ts \<noteq> Converged \<longrightarrow> ret_changes rs = []) \<and>
   (volume_present s name bricks stripe replica device_vg transport start force = (Inr rv, tv) \<longrightarrow>
      ret_changes rv \<noteq> [] \<longrightarrow>
      status_of rv tv = Converged \<or>
        (status_of rv tv = Failed \<and> start \<and>
         tv = [ListVolumes,
               CreateVolume name bricks stripe replica device_vg transport start force,
               ListVolumes, Info, StartVolume name] \<and>
         \<not> glusterfs_start_volume s (butlast tv) name))"
  using peered_changes [of s host rp tp] add_volume_bricks_changes [of s name bricks rb tb]
    started_changes [of s name rs ts]
    volume_present_changes [of s name bricks stripe replica device_vg transport start force rv tv]
  by blast

theorem changes_imply_action_witness:
  "peered cluster ''two'' =
     (Inr \<lparr>ret_name = ''two'', ret_changes = [(''new'', PList [''two'']), (''old'', PNone)],
           ret_comment = ''Host two successfully peered'', ret_result = Some True,
           ret_change = None\<rparr>,
      [GetHostByName ''two'', NetworkIpAddrs, ListPeers, Peer ''two'', ListPeers]) \<and>
   outcome_status (peered cluster ''two'') = Some Converged \<and>
   add_volume_bricks cluster ''v1'' [''h2:/b2''] =
     (Inr \<lparr>ret_name = ''v1'', ret_changes = [],
           ret_comment = ''Volume v1 is not started, cannot add bricks into it'',
           ret_result = Some False, ret_change = None\<rparr>,
      [Info]) \<and>
   outcome_status (add_volume_bricks cluster ''v1'' [''h2:/b2'']) = Some Failed \<and>
   started cluster ''v1'' =
     (Inr \<lparr>ret_name = ''v1'', ret_changes = [], ret_comment = ''Failed to start volume'',
           ret_result = Some False, ret_change = None\<rparr>,
      [Info, StartVolume ''v1'']) \<and>
   outcome_status (started cluster ''v1'') = Some Failed \<and>
   volume_present cluster ''v1'' [''h2:/b2''] None None False ''tcp'' True False =
     (Inr \<lparr>ret_name = ''v1'',
           ret_changes = [(''new'', PList [''v1'']), (''old'', PList [])],
           ret_comment =
             ''Volume v1 is created but failed to start. Check logs for further information'',
           ret_result = Some False, ret_change = None\<rparr>,
      [ListVolumes, CreateVolume ''v1'' [''h2:/b2''] None None False ''tcp'' True False,
       ListVolumes, Info, StartVolume ''v1'']) \<and>
   outcome_status (volume_present cluster ''v1'' [''h2:/b2''] None None False ''tcp'' True False)
     = Some Failed"
  using changes_imply_action [of cluster "''two''" _ _ "''v1''" "[''h2:/b2'']" _ _ _ _
      None None False "''tcp''" True False]
  by (simp add: unfold_all cluster_def quiet_def)

theorem changes_iff_converged_counterexample:
  "volume_present cluster ''v1'' [''h1:/b1''] None None False ''tcp'' True False =
     (Inr \<lparr>ret_name = ''v1'',
           ret_changes = [(''new'', PList [''v1'']), (''old'', PList [])],
           ret_comment =
             ''Volume v1 is created but failed to start. Check logs for further information'',
           ret_result = Some False, ret_change = None\<rparr>,
      [ListVolumes, CreateVolume ''v1'' [''h1:/b1''] None None False ''tcp'' True False,
       ListVolumes, Info, StartVolume ''v1'']) \<and>
   outcome_status (volume_present cluster ''v1'' [''h1:/b1''] None None False ''tcp'' True False)
     = Some Failed"
  by (simp add: unfold_all cluster_def quiet_def)


subsection \<open>Dry run\<close>

lemma peered_dry_run:
  "opts_test s \<Longrightarrow> \<not> acted (snd (peered s host)) \<and>
     outcome_status (peered s host) \<noteq> Some Converged"
  by (auto simp: peered_def init_ret_def salt_calls outcome_status_def status_of_def acted_def
        Let_def split: option.splits if_splits)

lemma started_dry_run:
  "opts_test s \<Longrightarrow> \<not> acted (snd (started s name)) \<and>
     outcome_status (started s name) \<noteq> Some Converged"
  by (auto simp: started_def init_ret_def salt_calls outcome_status_def status_of_def acted_def
        Let_def split: option.splits if_splits)

lemma volume_present_dry_run:
  "opts_test s \<Longrightarrow>
     \<not> acted (snd (volume_present s name bricks stripe replica device_vg transport start force)) \<and>
     outcome_status (volume_present s name bricks stripe replica device_vg transport start force)
       \<noteq> Some Converged"
  by (auto simp: volume_present_def volume_present_start_def init_ret_def salt_calls
        outcome_status_def status_of_def acted_def Let_def split: option.splits if_splits)

text \<open>
  C2 (as amended). With the test flag set, \<^verbatim>\<open>peered\<close>, \<^verbatim>\<open>volume_present\<close> and \<^verbatim>\<open>started\<close>
  invoke no state-changing action and their outcome is never \<open>Converged\<close>.
  \<^verbatim>\<open>add_volume_bricks\<close> does not read the flag.
\<close>

theorem dry_run_purity:
  assumes "opts_test s"
  shows "\<not> acted (snd (peered s host)) \<and>
         outcome_status (peered s host) \<noteq> Some Converged \<and>
         \<not> acted (snd (volume_present s name bricks stripe replica device_vg transport start
                          force)) \<and>
         outcome_status (volume_present s name bricks stripe replica device_vg transport start
                           force) \<noteq> Some Converged \<and>
         \<not> acted (snd (started s name)) \<and>
         outcome_status (started s name) \<noteq> Some Converged"
  using assms peered_dry_run [of s host] started_dry_run [of s name]
    volume_present_dry_run [of s name bricks stripe replica device_vg transport start force]
  by blast

theorem dry_run_purity_witness:
  "opts_test (stopped_volume\<lparr>opts_test := True\<rparr>) \<and>
   snd (peered (stopped_volume\<lparr>opts_test := True\<rparr>) ''two'') =
     [GetHostByName ''two'', NetworkIpAddrs, ListPeers] \<and>
   outcome_status (peered (stopped_volume\<lparr>opts_test := True\<rparr>) ''two'') = Some WouldChange \<and>
   snd (volume_present (stopped_volume\<lparr>opts_test := True\<rparr>) ''v1'' [''h1:/b1''] None None
          False ''tcp'' True False) = [ListVolumes] \<and>
   outcome_status (volume_present (stopped_volume\<lparr>opts_test := True\<rparr>) ''v1'' [''h1:/b1''] None
          None False ''tcp'' True False) = Some WouldChange \<and>
   snd (started (stopped_volume\<lparr>opts_test := True\<rparr>) ''v1'') = [Info] \<and>
   outcome_status (started (stopped_volume\<lparr>opts_test := True\<rparr>) ''v1'') = Some WouldChange"
  using dry_run_purity [of "stopped_volume\<lparr>opts_test := True\<rparr>" "''two''" "''v1''"
      "[''h1:/b1'']" None None False "''tcp''" True False]
  by (simp add: unfold_all stopped_volume_def quiet_def)

theorem dry_run_purity_counterexample:
  "opts_test (started_volume\<lparr>opts_test := True\<rparr>) \<and>
   add_volume_bricks (started_volume\<lparr>opts_test := True\<rparr>) ''v1'' [''h2:/b2''] =
     (Inr \<lparr>ret_name = ''v1'',
           ret_changes = [(''new'', PList [''h1:/b1'']), (''old'', PList [''h1:/b1''])],
           ret_comment = ''Bricks successfully added to volume v1'',
           ret_result = Some True, ret_change = None\<rparr>,
      [Info, AddVolumeBricks ''v1'' [''h2:/b2''], Info]) \<and>
   acted (snd (add_volume_bricks (started_volume\<lparr>opts_test := True\<rparr>) ''v1'' [''h2:/b2''])) \<and>
   outcome_status (add_volume_bricks (started_volume\<lparr>opts_test := True\<rparr>) ''v1'' [''h2:/b2''])
     = Some Converged"
  by (simp add: unfold_all none_missing_def started_volume_def quiet_def)

subsection \<open>Starting a volume\<close>

text \<open>
  C3. Where the volume exists, is not started, the test flag is off and the start action
  reports success, \<^verbatim>\<open>started\<close> returns \<^verbatim>\<open>result\<close> true with \<^verbatim>\<open>changes\<close> empty: line 229
  stores the change set under the key \<^verbatim>\<open>change\<close>.
\<close>

theorem started_success_changes_empty:
  assumes "map_of (glusterfs_info s []) name = Some vol" and "vol_status vol = Some st"
      and "st \<noteq> 1" and "\<not> opts_test s" and "glusterfs_start_volume s [Info] name"
  shows "started s name =
           (Inr \<lparr>ret_name = name, ret_changes = [],
                 ret_comment = ''Volume '' @ name @ '' is started'', ret_result = Some True,
                 ret_change = Some [(''new'', PStr ''started''), (''old'', PStr ''stopped'')]\<rparr>,
            [Info, StartVolume name])"
  using assms by (simp add: started_def init_ret_def salt_calls)

theorem started_success_changes_empty_witness:
  "map_of (glusterfs_info stopped_volume []) ''v1'' =
     Some \<lparr>vol_status = Some 0, vol_bricks = [''h1:/b1'']\<rparr> \<and>
   \<not> opts_test stopped_volume \<and> glusterfs_start_volume stopped_volume [Info] ''v1'' \<and>
   started stopped_volume ''v1'' =
     (Inr \<lparr>ret_name = ''v1'', ret_changes = [], ret_comment = ''Volume v1 is started'',
           ret_result = Some True,
           ret_change = Some [(''new'', PStr ''started''), (''old'', PStr ''stopped'')]\<rparr>,
      [Info, StartVolume ''v1''])"
  using started_success_changes_empty [of stopped_volume "''v1''"
      "\<lparr>vol_status = Some 0, vol_bricks = [''h1:/b1'']\<rparr>" 0]
  by (simp add: stopped_volume_def quiet_def)

subsection \<open>Exceptions\<close>









subsection \<open>A created volume that the re-query does not list\<close>

lemma peered_unconfirmed:
  assumes "gethostbyname s [] host = Some addr"
      and "\<not> List.member (network_ip_addrs s [GetHostByName host]) addr"
      and "\<not> in_peers host (glusterfs_list_peers s [GetHostByName host, NetworkIpAddrs])"
      and "\<not> check_name host" and "\<not> opts_test s"
      and "glusterfs_peer s [GetHostByName host, NetworkIpAddrs, ListPeers] host"
      and "\<not> in_peers host (glusterfs_list_peers s
             [GetHostByName host, NetworkIpAddrs, ListPeers, Peer host])"
  shows "peered s host =
           (Inr \<lparr>ret_name = host, ret_changes = [],
                 ret_comment = ''Host '' @ host @
                   '' was successfully peered but did not appear in the list of peers'',
                 ret_result = Some False, ret_change = None\<rparr>,
            [GetHostByName host, NetworkIpAddrs, ListPeers, Peer host, ListPeers])"
  using assms by (simp add: peered_def init_ret_def salt_calls)

text \<open>
  C5. Where the create action reports success and the re-queried volume list does not hold
  the volume, \<^verbatim>\<open>volume_present\<close> without a start request returns \<^verbatim>\<open>result\<close> true with an
  empty comment and empty \<^verbatim>\<open>changes\<close>: the test at line 150 has no other branch, and line
  177 sets \<^verbatim>\<open>result\<close>.
\<close>

theorem volume_present_unconfirmed_create:
  assumes "\<not> check_name name" and "\<not> List.member (glusterfs_list_volumes s []) name"
      and "\<not> opts_test s"
      and "glusterfs_create_volume s [ListVolumes] name bricks stripe replica device_vg transport
             False force"
      and "\<not> List.member (glusterfs_list_volumes s
             [ListVolumes, CreateVolume name bricks stripe replica device_vg transport False
                force]) name"
  shows "volume_present s name bricks stripe replica device_vg transport False force =
           (Inr \<lparr>ret_name = name, ret_changes = [], ret_comment = [], ret_result = Some True,
                 ret_change = None\<rparr>,
            [ListVolumes,
             CreateVolume name bricks stripe replica device_vg transport False force,
             ListVolumes])"
  using assms
  by (simp add: volume_present_def volume_present_start_def init_ret_def salt_calls)

theorem volume_present_unconfirmed_create_witness:
  "\<not> check_name ''v1'' \<and> \<not> List.member (glusterfs_list_volumes quiet []) ''v1'' \<and>
   \<not> opts_test quiet \<and>
   glusterfs_create_volume quiet [ListVolumes] ''v1'' [''h1:/b1''] None None False ''tcp'' False
     False \<and>
   \<not> List.member (glusterfs_list_volumes quiet
        [ListVolumes, CreateVolume ''v1'' [''h1:/b1''] None None False ''tcp'' False False])
      ''v1'' \<and>
   volume_present quiet ''v1'' [''h1:/b1''] None None False ''tcp'' False False =
     (Inr \<lparr>ret_name = ''v1'', ret_changes = [], ret_comment = [], ret_result = Some True,
           ret_change = None\<rparr>,
      [ListVolumes, CreateVolume ''v1'' [''h1:/b1''] None None False ''tcp'' False False,
       ListVolumes])"
  using volume_present_unconfirmed_create [of "''v1''" quiet "[''h1:/b1'']" None None False
      "''tcp''" False]
  by (simp add: quiet_def)


subsection \<open>Re-query before success\<close>

lemma peered_converged_trace:
  "peered s host = (Inr r, t) \<Longrightarrow> status_of r t = Converged \<Longrightarrow>
     t = [GetHostByName host, NetworkIpAddrs, ListPeers, Peer host, ListPeers] \<and>
     in_peers host (glusterfs_list_peers s (butlast t)) \<and> requeried t"
  by (auto simp: peered_def init_ret_def salt_calls status_of_def acted_def requeried_def Let_def
        split: option.splits if_splits)

lemma add_volume_bricks_converged_trace:
  "add_volume_bricks s name bricks = (Inr r, t) \<Longrightarrow> status_of r t = Converged \<Longrightarrow>
     t = [Info, AddVolumeBricks name bricks, Info] \<and> requeried t"
  by (auto simp: add_volume_bricks_def init_ret_def salt_calls status_of_def acted_def
        requeried_def Let_def split: option.splits if_splits)

lemma started_converged_trace:
  "started s name = (Inr r, t) \<Longrightarrow> status_of r t = Converged \<Longrightarrow>
     t = [Info, StartVolume name] \<and> \<not> requeried t"
  by (auto simp: started_def init_ret_def salt_calls status_of_def acted_def requeried_def
        Let_def split: option.splits if_splits)

lemma volume_present_converged_trace:
  "volume_present s name bricks stripe replica device_vg transport start force = (Inr r, t) \<Longrightarrow>
   status_of r t = Converged \<Longrightarrow>
     requeried t \<or> (start \<and> last t = StartVolume name)"
  by (auto simp: volume_present_def volume_present_start_def init_ret_def salt_calls
        status_of_def acted_def requeried_def Let_def split: option.splits if_splits)

lemma volume_present_creation_changes:
  "volume_present s name bricks stripe replica device_vg transport start force = (Inr r, t) \<Longrightarrow>
   ret_changes r \<noteq> [] \<Longrightarrow>
   ret_changes r \<noteq> [(''new'', PStr ''started''), (''old'', PStr ''stopped'')] \<Longrightarrow>
     List.member (glusterfs_list_volumes s
        [ListVolumes, CreateVolume name bricks stripe replica device_vg transport start force])
        name \<and>
     ret_changes r =
       [(''new'', PList (glusterfs_list_volumes s
           [ListVolumes,
            CreateVolume name bricks stripe replica device_vg transport start force])),
        (''old'', PList (glusterfs_list_volumes s []))]"
  by (auto simp: volume_present_def volume_present_start_def init_ret_def salt_calls
        Let_def split: option.splits if_splits)

text \<open>
  C6 (as amended). \<^verbatim>\<open>peered\<close> reports \<open>Converged\<close> only after a re-query of the peer list
  that holds the host. \<^verbatim>\<open>add_volume_bricks\<close> reports it only after a re-query of the volume
  info, whose content it does not test. \<^verbatim>\<open>volume_present\<close> records the change set of a
  creation only after a re-query of the volume list that holds the volume; its outcome
  \<open>Converged\<close> follows a re-query or, when a start was requested, the start action itself.
  \<^verbatim>\<open>started\<close> reports \<open>Converged\<close> straight after the start action, with no re-query.
\<close>

theorem converged_after_requery:
  "(peered sp host = (Inr rp, tp) \<longrightarrow> status_of rp tp = Converged \<longrightarrow>
      tp = [GetHostByName host, NetworkIpAddrs, ListPeers, Peer host, ListPeers] \<and>
      in_peers host (glusterfs_list_peers sp (butlast tp)) \<and> requeried tp) \<and>
   (add_volume_bricks sb vol bs = (Inr rb, tb) \<longrightarrow> status_of rb tb = Converged \<longrightarrow>
      tb = [Info, AddVolumeBricks vol bs, Info] \<and> requeried tb) \<and>
   (volume_present sv name bricks stripe replica device_vg transport start force = (Inr rv, tv)
      \<longrightarrow> status_of rv tv = Converged \<longrightarrow>
      requeried tv \<or> (start \<and> last tv = StartVolume name)) \<and>
   (volume_present sv name bricks stripe replica device_vg transport start force = (Inr rv, tv)
      \<longrightarrow> ret_changes rv \<noteq> [] \<longrightarrow>
      ret_changes rv \<noteq> [(''new'', PStr ''started''), (''old'', PStr ''stopped'')] \<longrightarrow>
      List.member (glusterfs_list_volumes sv
        [ListVolumes, CreateVolume name bricks stripe replica device_vg transport start force])
        name) \<and>
   (started ss sname = (Inr rs, ts) \<longrightarrow> status_of rs ts = Converged \<longrightarrow>
      ts = [Info, StartVolume sname] \<and> \<not> requeried ts)"
  using peered_converged_trace [of sp host rp tp]
    add_volume_bricks_converged_trace [of sb vol bs rb tb]
    volume_present_converged_trace [of sv name bricks stripe replica device_vg transport start
      force rv tv]
    volume_present_creation_changes [of sv name bricks stripe replica device_vg transport start
      force rv tv]
    started_converged_trace [of ss sname rs ts]
  by blast

theorem converged_after_requery_witness:
  "peered pool ''two'' =
     (Inr \<lparr>ret_name = ''two'', ret_changes = [(''new'', PList [''two'']), (''old'', PNone)],
           ret_comment = ''Host two successfully peered'', ret_result = Some True,
           ret_change = None\<rparr>,
      [GetHostByName ''two'', NetworkIpAddrs, ListPeers, Peer ''two'', ListPeers]) \<and>
   outcome_status (peered pool ''two'') = Some Converged \<and>
   in_peers ''two'' (glusterfs_list_peers pool
      [GetHostByName ''two'', NetworkIpAddrs, ListPeers, Peer ''two'']) \<and>
   requeried [GetHostByName ''two'', NetworkIpAddrs, ListPeers, Peer ''two'', ListPeers] \<and>
   add_volume_bricks pool ''v2'' [''h2:/b2''] =
     (Inr \<lparr>ret_name = ''v2'',
           ret_changes = [(''new'', PList [''h1:/b1'', ''h2:/b2'']), (''old'', PList [''h1:/b1''])],
           ret_comment = ''Bricks successfully added to volume v2'', ret_result = Some True,
           ret_change = None\<rparr>,
      [Info, AddVolumeBricks ''v2'' [''h2:/b2''], Info]) \<and>
   outcome_status (add_volume_bricks pool ''v2'' [''h2:/b2'']) = Some Converged \<and>
   requeried [Info, AddVolumeBricks ''v2'' [''h2:/b2''], Info] \<and>
   volume_present cluster ''v1'' [''h1:/b1''] None None False ''tcp'' False False =
     (Inr \<lparr>ret_name = ''v1'',
           ret_changes = [(''new'', PList [''v1'']), (''old'', PList [])],
           ret_comment = ''Volume v1 is created'', ret_result = Some True, ret_change = None\<rparr>,
      [ListVolumes, CreateVolume ''v1'' [''h1:/b1''] None None False ''tcp'' False False,
       ListVolumes]) \<and>
   outcome_status (volume_present cluster ''v1'' [''h1:/b1''] None None False ''tcp'' False False)
     = Some Converged \<and>
   requeried [ListVolumes, CreateVolume ''v1'' [''h1:/b1''] None None False ''tcp'' False False,
       ListVolumes] \<and>
   List.member (glusterfs_list_volumes cluster
      [ListVolumes, CreateVolume ''v1'' [''h1:/b1''] None None False ''tcp'' False False]) ''v1'' \<and>
   started pool ''v1'' =
     (Inr \<lparr>ret_name = ''v1'', ret_changes = [], ret_comment = ''Volume v1 is started'',
           ret_result = Some True,
           ret_change = Some [(''new'', PStr ''started''), (''old'', PStr ''stopped'')]\<rparr>,
      [Info, StartVolume ''v1'']) \<and>
   outcome_status (started pool ''v1'') = Some Converged \<and>
   \<not> requeried [Info, StartVolume ''v1'']"
  using converged_after_requery [of pool "''two''" _ _ pool "''v2''" "[''h2:/b2'']" _ _
      cluster "''v1''" "[''h1:/b1'']" None None False "''tcp''" False False _ _ pool "''v1''"]
  by (simp add: unfold_all none_missing_def pool_def cluster_def quiet_def)

theorem converged_after_requery_counterexample:
  "volume_present stopped_volume ''v1'' [''h1:/b1''] None None False ''tcp'' True False =
     (Inr \<lparr>ret_name = ''v1'',
           ret_changes = [(''new'', PStr ''started''), (''old'', PStr ''stopped'')],
           ret_comment = ''Volume v1 already exists and is now started'',
           ret_result = Some True, ret_change = None\<rparr>,
      [ListVolumes, Info, StartVolume ''v1'']) \<and>
   outcome_status
     (volume_present stopped_volume ''v1'' [''h1:/b1''] None None False ''tcp'' True False)
     = Some Converged \<and>
   \<not> requeried [ListVolumes, Info, StartVolume ''v1'']"
  by (simp add: unfold_all stopped_volume_def quiet_def)

subsection \<open>Validation of the name\<close>

lemma volume_present_invalid:
  "check_name name \<Longrightarrow>
   volume_present s name bricks stripe replica device_vg transport start force =
     (Inr \<lparr>ret_name = name, ret_changes = [],
           ret_comment = ''Invalid characters in volume name.'', ret_result = Some False,
           ret_change = None\<rparr>, [])"
  by (simp add: volume_present_def init_ret_def)

lemma peered_invalid_no_action: "check_name host \<Longrightarrow> \<not> acted (snd (peered s host))"
  by (auto simp: peered_def init_ret_def salt_calls acted_def Let_def
        split: option.splits if_splits)

lemma peered_invalid:
  "check_name host \<Longrightarrow> gethostbyname s [] host = Some addr \<Longrightarrow>
   \<not> List.member (network_ip_addrs s [GetHostByName host]) addr \<Longrightarrow>
   \<not> in_peers host (glusterfs_list_peers s [GetHostByName host, NetworkIpAddrs]) \<Longrightarrow>
   peered s host =
     (Inr \<lparr>ret_name = host, ret_changes = [],
           ret_comment = ''Invalid characters in peer name.'', ret_result = Some False,
           ret_change = None\<rparr>,
      [GetHostByName host, NetworkIpAddrs, ListPeers])"
  by (simp add: peered_def init_ret_def salt_calls)

text \<open>
  C7 (as amended). \<^verbatim>\<open>volume_present\<close> on a malformed name returns \<^verbatim>\<open>result\<close> false before
  any call leaves the module. \<^verbatim>\<open>peered\<close> on a malformed name invokes no action; it tests the
  name after resolving it, reading the local addresses and querying the peer list, and
  returns \<^verbatim>\<open>result\<close> false when the name resolves to a foreign address and is not in the
  peer list.
\<close>

theorem malformed_name_rejected:
  assumes "check_name name"
  shows "volume_present s name bricks stripe replica device_vg transport start force =
           (Inr \<lparr>ret_name = name, ret_changes = [],
                 ret_comment = ''Invalid characters in volume name.'', ret_result = Some False,
                 ret_change = None\<rparr>, []) \<and>
         \<not> acted (snd (peered s name)) \<and>
         (gethostbyname s [] name = Some addr \<longrightarrow>
          \<not> List.member (network_ip_addrs s [GetHostByName name]) addr \<longrightarrow>
          \<not> in_peers name (glusterfs_list_peers s [GetHostByName name, NetworkIpAddrs]) \<longrightarrow>
          peered s name =
            (Inr \<lparr>ret_name = name, ret_changes = [],
                  ret_comment = ''Invalid characters in peer name.'', ret_result = Some False,
                  ret_change = None\<rparr>,
             [GetHostByName name, NetworkIpAddrs, ListPeers]))"
  using assms volume_present_invalid [of name s bricks stripe replica device_vg transport start
      force]
    peered_invalid_no_action [of name s] peered_invalid [of name s addr]
  by blast

theorem malformed_name_rejected_witness:
  "check_name ''bad name!'' \<and>
   volume_present quiet ''bad name!'' [''h1:/b1''] None None False ''tcp'' True False =
     (Inr \<lparr>ret_name = ''bad name!'', ret_changes = [],
           ret_comment = ''Invalid characters in volume name.'', ret_result = Some False,
           ret_change = None\<rparr>, []) \<and>
   gethostbyname quiet [] ''bad name!'' = Some ''192.0.2.7'' \<and>
   \<not> List.member (network_ip_addrs quiet [GetHostByName ''bad name!'']) ''192.0.2.7'' \<and>
   \<not> in_peers ''bad name!''
       (glusterfs_list_peers quiet [GetHostByName ''bad name!'', NetworkIpAddrs]) \<and>
   \<not> acted (snd (peered quiet ''bad name!'')) \<and>
   peered quiet ''bad name!'' =
     (Inr \<lparr>ret_name = ''bad name!'', ret_changes = [],
           ret_comment = ''Invalid characters in peer name.'', ret_result = Some False,
           ret_change = None\<rparr>,
      [GetHostByName ''bad name!'', NetworkIpAddrs, ListPeers])"
  using malformed_name_rejected [of "''bad name!''" quiet "[''h1:/b1'']" None None False "''tcp''"
      True False "''192.0.2.7''"]
  by (simp add: acted_def quiet_def)

theorem malformed_name_rejected_counterexample:
  "check_name ''bad name!'' \<and>
   snd (peered quiet ''bad name!'') = [GetHostByName ''bad name!'', NetworkIpAddrs, ListPeers] \<and>
   is_query (last (snd (peered quiet ''bad name!'')))"
  by (simp add: unfold_all quiet_def)


subsection \<open>The start phase of \<^verbatim>\<open>volume_present\<close> under the test flag\<close>

lemma volume_present_started_no_test:
  assumes "\<not> check_name name" and "List.member (glusterfs_list_volumes s []) name"
      and "\<not> opts_test s"
      and "map_of (glusterfs_info s [ListVolumes]) name = Some vol"
      and "vol_status vol = Some 1"
  shows "volume_present s name bricks stripe replica device_vg transport True force =
           (Inr \<lparr>ret_name = name, ret_changes = [],
                 ret_comment = ''Volume '' @ name @ '' already exists and is started'',
                 ret_result = Some True, ret_change = None\<rparr>,
            [ListVolumes, Info])"
  using assms
  by (simp add: volume_present_def volume_present_start_def init_ret_def salt_calls)

text \<open>
  C8. Where the volume is present, a start is requested and the test flag is set,
  \<^verbatim>\<open>volume_present\<close> returns \<^verbatim>\<open>result\<close> \<^verbatim>\<open>None\<close> with the comment ending in
  \<^verbatim>\<open>and will be started\<close> and never queries the volume status, whether the volume is
  started or not: the test at line 158 precedes the status query at line 163.
\<close>

theorem volume_present_dry_run_skips_status:
  assumes "\<not> check_name name" and "List.member (glusterfs_list_volumes s []) name"
      and "opts_test s"
  shows "volume_present s name bricks stripe replica device_vg transport True force =
           (Inr \<lparr>ret_name = name, ret_changes = [],
                 ret_comment = ''Volume '' @ name @ '' already exists and will be started'',
                 ret_result = None, ret_change = None\<rparr>,
            [ListVolumes])"
  using assms
  by (simp add: volume_present_def volume_present_start_def init_ret_def salt_calls)

theorem volume_present_dry_run_skips_status_witness:
  "\<not> check_name ''v1'' \<and>
   List.member (glusterfs_list_volumes (started_volume\<lparr>opts_test := True\<rparr>) []) ''v1'' \<and>
   opts_test (started_volume\<lparr>opts_test := True\<rparr>) \<and>
   map_of (glusterfs_info (started_volume\<lparr>opts_test := True\<rparr>) [ListVolumes]) ''v1'' =
     Some \<lparr>vol_status = Some 1, vol_bricks = [''h1:/b1'']\<rparr> \<and>
   volume_present (started_volume\<lparr>opts_test := True\<rparr>) ''v1'' [''h1:/b1''] None None False
       ''tcp'' True False =
     (Inr \<lparr>ret_name = ''v1'', ret_changes = [],
           ret_comment = ''Volume v1 already exists and will be started'',
           ret_result = None, ret_change = None\<rparr>,
      [ListVolumes])"
  using volume_present_dry_run_skips_status [of "''v1''" "started_volume\<lparr>opts_test := True\<rparr>"
      "[''h1:/b1'']" None None False "''tcp''" False]
  by (simp add: started_volume_def quiet_def)

subsection \<open>Bricks\<close>

lemma none_missing_subset: "none_missing bricks current \<longleftrightarrow> set bricks \<subseteq> set current"
  by (auto simp: none_missing_def filter_empty_conv)

lemma add_volume_bricks_present:
  assumes "map_of (glusterfs_info s []) name = Some vol" and "vol_status vol = Some 1"
      and "set bricks \<subseteq> set (vol_bricks vol)"
  shows "add_volume_bricks s name bricks =
           (Inr \<lparr>ret_name = name, ret_changes = [],
                 ret_comment = ''Bricks already added in volume '' @ name,
                 ret_result = Some True, ret_change = None\<rparr>,
            [Info])"
  using assms by (simp add: add_volume_bricks_def init_ret_def salt_calls none_missing_subset)

lemma add_volume_bricks_added:
  assumes "map_of (glusterfs_info s []) name = Some vol" and "vol_status vol = Some 1"
      and "\<not> set bricks \<subseteq> set (vol_bricks vol)"
      and "add_volume_bricks s name bricks = (Inr r, t)" and "ret_result r = Some True"
  shows "\<exists>newvol. map_of (glusterfs_info s [Info, AddVolumeBricks name bricks]) name
             = Some newvol \<and>
           ret_changes r =
             [(''new'', PList (vol_bricks newvol)), (''old'', PList (vol_bricks vol))] \<and>
           t = [Info, AddVolumeBricks name bricks, Info]"
  using assms
  by (auto simp: add_volume_bricks_def init_ret_def salt_calls none_missing_subset Let_def
        split: option.splits if_splits)

text \<open>
  C9 (as amended). On an existing, started volume: when every requested brick is in the
  current brick list, \<^verbatim>\<open>add_volume_bricks\<close> returns \<^verbatim>\<open>result\<close> true with empty \<^verbatim>\<open>changes\<close>
  after the one query, invoking no action. Otherwise, when it returns \<^verbatim>\<open>result\<close> true,
  \<^verbatim>\<open>changes\<close> holds under \<^verbatim>\<open>new\<close> the brick list that the query after the action reports and
  under \<^verbatim>\<open>old\<close> the current brick list; the module does not compare the two.
\<close>

theorem bricks_reported:
  assumes "map_of (glusterfs_info s []) name = Some vol" and "vol_status vol = Some 1"
  shows "(set bricks \<subseteq> set (vol_bricks vol) \<longrightarrow>
            add_volume_bricks s name bricks =
              (Inr \<lparr>ret_name = name, ret_changes = [],
                    ret_comment = ''Bricks already added in volume '' @ name,
                    ret_result = Some True, ret_change = None\<rparr>,
               [Info])) \<and>
         (\<not> set bricks' \<subseteq> set (vol_bricks vol) \<longrightarrow>
            add_volume_bricks s name bricks' = (Inr r, t) \<longrightarrow> ret_result r = Some True \<longrightarrow>
            (\<exists>newvol. map_of (glusterfs_info s [Info, AddVolumeBricks name bricks']) name
                = Some newvol \<and>
              ret_changes r =
                [(''new'', PList (vol_bricks newvol)), (''old'', PList (vol_bricks vol))] \<and>
              t = [Info, AddVolumeBricks name bricks', Info]))"
  using assms add_volume_bricks_present [of s name vol bricks]
    add_volume_bricks_added [of s name vol bricks' r t]
  by blast

theorem bricks_reported_witness:
  "map_of (glusterfs_info growing_volume []) ''v1'' =
     Some \<lparr>vol_status = Some 1, vol_bricks = [''h1:/b1'']\<rparr> \<and>
   set [''h1:/b1''] \<subseteq> set [''h1:/b1''] \<and>
   add_volume_bricks growing_volume ''v1'' [''h1:/b1''] =
     (Inr \<lparr>ret_name = ''v1'', ret_changes = [],
           ret_comment = ''Bricks already added in volume v1'', ret_result = Some True,
           ret_change = None\<rparr>,
      [Info]) \<and>
   \<not> set [''h2:/b2''] \<subseteq> set [''h1:/b1''] \<and>
   add_volume_bricks growing_volume ''v1'' [''h2:/b2''] =
     (Inr \<lparr>ret_name = ''v1'',
           ret_changes = [(''new'', PList [''h1:/b1'', ''h2:/b2'']), (''old'', PList [''h1:/b1''])],
           ret_comment = ''Bricks successfully added to volume v1'', ret_result = Some True,
           ret_change = None\<rparr>,
      [Info, AddVolumeBricks ''v1'' [''h2:/b2''], Info]) \<and>
   map_of (glusterfs_info growing_volume [Info, AddVolumeBricks ''v1'' [''h2:/b2'']]) ''v1'' =
     Some \<lparr>vol_status = Some 1, vol_bricks = [''h1:/b1'', ''h2:/b2'']\<rparr>"
  using bricks_reported [of growing_volume "''v1''"
      "\<lparr>vol_status = Some 1, vol_bricks = [''h1:/b1'']\<rparr>" "[''h1:/b1'']" "[''h2:/b2'']"]
  by (simp add: unfold_all none_missing_def growing_volume_def quiet_def)

theorem bricks_superset_counterexample:
  "map_of (glusterfs_info started_volume []) ''v1'' =
     Some \<lparr>vol_status = Some 1, vol_bricks = [''h1:/b1'']\<rparr> \<and>
   \<not> set [''h2:/b2''] \<subseteq> set [''h1:/b1''] \<and>
   add_volume_bricks started_volume ''v1'' [''h2:/b2''] =
     (Inr \<lparr>ret_name = ''v1'',
           ret_changes = [(''new'', PList [''h1:/b1'']), (''old'', PList [''h1:/b1''])],
           ret_comment = ''Bricks successfully added to volume v1'', ret_result = Some True,
           ret_change = None\<rparr>,
      [Info, AddVolumeBricks ''v1'' [''h2:/b2''], Info])"
  by (simp add: unfold_all none_missing_def started_volume_def quiet_def)

subsection \<open>The deprecated name\<close>

text \<open>
  C10. For every argument list, \<^verbatim>\<open>created\<close> returns the outcome of \<^verbatim>\<open>volume_present\<close> on
  the same arguments, the same calls having left the module, and emits the one deprecation
  warning.
\<close>

theorem created_is_volume_present:
  "snd (created s name bricks stripe replica device_vg transport start force) =
     volume_present s name bricks stripe replica device_vg transport start force \<and>
   fst (created s name bricks stripe replica device_vg transport start force) =
     [''The glusterfs.creaged state is deprecated in favor of more descriptive glusterfs.volume_present.'']"
  by (simp add: created_def warn_until_def)


end
